theory Spec2Isabelle
  imports Complex_Main
begin

section \<open>Python strings, truthiness and parameter mappings\<close>

text \<open>
  The module \<^verbatim>\<open>lib/omp/db/db.py\<close> builds SQL query templates as Python strings
  together with a dictionary of named parameters, and hands both to the cursor of the
  MySQL backend. Strings are modelled as \<^typ>\<open>string\<close>, the parameter dictionary as a
  map from placeholder names to values, and an optional argument as an \<open>option\<close>.
\<close>

text \<open>Python's \<^verbatim>\<open>sep.join(xs)\<close>.\<close>

fun py_join :: "string \<Rightarrow> string list \<Rightarrow> string" where
  "py_join sep [] = []"
| "py_join sep [x] = x"
| "py_join sep (x # y # ys) = x @ sep @ py_join sep (y # ys)"

text \<open>
  Python's truth value of an optional string argument, as tested by \<^verbatim>\<open>if queue:\<close>:
  \<^verbatim>\<open>None\<close> and the empty string are false.
\<close>

definition truthy :: "string option \<Rightarrow> bool" where
  "truthy v = (case v of None \<Rightarrow> False | Some s \<Rightarrow> s \<noteq> [])"

text \<open>The values a parameter dictionary holds: integers (dates, hours) and strings.\<close>

datatype sqlval = IntV int | StrV string

type_synonym params = "string \<rightharpoonup> sqlval"

section \<open>The predicate builder: \<^verbatim>\<open>create_group_project_query\<close>\<close>

text \<open>
  \<^verbatim>\<open>
  def create_group_project_query(self, semester=None, queue=None, projects=None,
                                 patternmatch=None, telescope='JCMT'):
      wherequery = []
      args = {}
      fromstatement = "FROM omp.ompproj AS p "
      selectstatement = "SELECT p.projectid "
      if queue: ...
      if semester: ...
      if projects is not None and projects != []: ...
      if patternmatch: ...
      if telescope: ...
      return selectstatement, fromstatement, wherequery, args
  \<close>
  The four results are the fields of a record, in the order of the returned tuple.
\<close>

record group_query =
  selectstatement :: string
  fromstatement :: string
  wherequery :: "string list"
  args :: params

text \<open>The default of the keyword argument \<^verbatim>\<open>telescope\<close>.\<close>

definition telescope_default :: "string option" where
  "telescope_default = Some ''JCMT''"

text \<open>\<^verbatim>\<open>"'{}'".format(i)\<close>: the project identifier between single quotes.\<close>

definition quote_single :: "string \<Rightarrow> string" where
  "quote_single i = [CHR 0x27] @ i @ [CHR 0x27]"

text \<open>
  \<^verbatim>\<open>projstring = ", ".join(["'{}'".format(i) for i in projects])\<close> and the fragment
  \<^verbatim>\<open>" p.projectid in ({}) ".format(projstring)\<close>.
\<close>

definition projects_fragment :: "string list \<Rightarrow> string" where
  "projects_fragment projects =
     (let projstring = py_join '', '' (map quote_single projects)
      in '' p.projectid in ('' @ projstring @ '') '')"

text \<open>The test \<^verbatim>\<open>projects is not None and projects != []\<close>.\<close>

definition projects_given :: "string list option \<Rightarrow> bool" where
  "projects_given projects = (projects \<noteq> None \<and> projects \<noteq> Some [])"

definition create_group_project_query ::
  "string option \<Rightarrow> string option \<Rightarrow> string list option \<Rightarrow> string option \<Rightarrow> string option
     \<Rightarrow> group_query" where
  "create_group_project_query semester queue projects patternmatch telescope =
    (let wherequery0 = [];
         args0 = Map.empty;
         fromstatement0 = ''FROM omp.ompproj AS p '';
         selectstatement0 = ''SELECT p.projectid '';
         \<comment> \<open>\<^verbatim>\<open>if queue:\<close>\<close>
         wherequery1 = (if truthy queue then wherequery0 @ ['' q.country=%(queue)s '']
                        else wherequery0);
         args1 = (if truthy queue then args0(''queue'' \<mapsto> StrV (the queue)) else args0);
         fromstatement1 =
           (if truthy queue
            then fromstatement0 @ ''JOIN omp.ompprojqueue AS q  ON p.projectid=q.projectid ''
            else fromstatement0);
         \<comment> \<open>\<^verbatim>\<open>if semester:\<close>\<close>
         wherequery2 = (if truthy semester then wherequery1 @ ['' p.semester=%(semester)s '']
                        else wherequery1);
         args2 = (if truthy semester then args1(''semester'' \<mapsto> StrV (the semester)) else args1);
         \<comment> \<open>\<^verbatim>\<open>if projects is not None and projects != []:\<close>\<close>
         wherequery3 = (if projects_given projects
                        then wherequery2 @ [projects_fragment (the projects)]
                        else wherequery2);
         \<comment> \<open>\<^verbatim>\<open>if patternmatch:\<close>\<close>
         wherequery4 = (if truthy patternmatch
                        then wherequery3 @ ['' p.projectid LIKE %(pattern)s '']
                        else wherequery3);
         args4 = (if truthy patternmatch then args2(''pattern'' \<mapsto> StrV (the patternmatch))
                  else args2);
         \<comment> \<open>\<^verbatim>\<open>if telescope:\<close>\<close>
         wherequery5 = (if truthy telescope
                        then wherequery4 @ ['' p.telescope=%(telescope)s '']
                        else wherequery4);
         args5 = (if truthy telescope then args4(''telescope'' \<mapsto> StrV (the telescope))
                  else args4)
     in \<lparr> selectstatement = selectstatement0,
          fromstatement = fromstatement1,
          wherequery = wherequery5,
          args = args5 \<rparr>)"

text \<open>The number of criteria that are supplied, in the sense of the five tests.\<close>

definition n_supplied ::
  "string option \<Rightarrow> string option \<Rightarrow> string list option \<Rightarrow> string option \<Rightarrow> string option
     \<Rightarrow> nat" where
  "n_supplied semester queue projects patternmatch telescope =
     of_bool (truthy queue) + of_bool (truthy semester) + of_bool (projects_given projects)
       + of_bool (truthy patternmatch) + of_bool (truthy telescope)"

text \<open>The placeholder names of the criteria that are supplied; a project list has none.\<close>

definition supplied_names ::
  "string option \<Rightarrow> string option \<Rightarrow> string option \<Rightarrow> string option \<Rightarrow> string set" where
  "supplied_names semester queue patternmatch telescope =
     (if truthy queue then {''queue''} else {}) \<union>
     (if truthy semester then {''semester''} else {}) \<union>
     (if truthy patternmatch then {''pattern''} else {}) \<union>
     (if truthy telescope then {''telescope''} else {})"

section \<open>The relational store: values, tables and SQL operators\<close>

text \<open>
  The queries run on a MySQL server. A \<^verbatim>\<open>DATETIME\<close> or \<^verbatim>\<open>TIMESTAMP\<close> value is
  modelled as a number of seconds on a fixed time line (an \<^typ>\<open>int\<close>), a nullable
  column as an \<open>option\<close> with \<^term>\<open>None\<close> for \<^verbatim>\<open>NULL\<close>, and an SQL truth value as a
  \<^typ>\<open>bool option\<close> with \<^term>\<open>None\<close> for \<^verbatim>\<open>UNKNOWN\<close>. A \<^verbatim>\<open>WHERE\<close> clause keeps a row
  only when its condition is \<^term>\<open>Some True\<close>. Strings are compared exactly (a binary
  collation), and the opacity columns, which the server holds as floating-point
  numbers, are read as the real numbers they denote.
\<close>

type_synonym datetime = int

text \<open>\<^verbatim>\<open>HOUR(d)\<close> and \<^verbatim>\<open>MINUTE(d)\<close> of a date and time.\<close>

definition HOUR :: "datetime \<Rightarrow> int" where
  "HOUR d = (d div 3600) mod 24"

definition MINUTE :: "datetime \<Rightarrow> int" where
  "MINUTE d = (d div 60) mod 60"

text \<open>The date and time \<open>days\<close> whole days after the origin, at \<open>h:m:s\<close>.\<close>

definition at_time :: "int \<Rightarrow> int \<Rightarrow> int \<Rightarrow> int \<Rightarrow> datetime" where
  "at_time days h m s = days * 86400 + h * 3600 + m * 60 + s"

text \<open>
  \<^verbatim>\<open>TIMESTAMPDIFF(unit, a, b)\<close>: the whole number of units from \<open>a\<close> to \<open>b\<close>, rounded
  towards zero; \<open>unit_seconds\<close> is 60 for \<^verbatim>\<open>MINUTE\<close> and 3600 for \<^verbatim>\<open>HOUR\<close>.
\<close>

definition TIMESTAMPDIFF :: "int \<Rightarrow> datetime \<Rightarrow> datetime \<Rightarrow> int" where
  "TIMESTAMPDIFF unit_seconds a b =
     (if a \<le> b then (b - a) div unit_seconds else - ((a - b) div unit_seconds))"

text \<open>Comparison of nullable values: \<^verbatim>\<open>NULL\<close> on either side gives \<^verbatim>\<open>UNKNOWN\<close>.\<close>

definition sql_lt :: "int option \<Rightarrow> int option \<Rightarrow> bool option" where
  "sql_lt a b = (case a of None \<Rightarrow> None
                 | Some x \<Rightarrow> (case b of None \<Rightarrow> None | Some y \<Rightarrow> Some (x < y)))"

definition sql_eq :: "int option \<Rightarrow> int option \<Rightarrow> bool option" where
  "sql_eq a b = (case a of None \<Rightarrow> None
                 | Some x \<Rightarrow> (case b of None \<Rightarrow> None | Some y \<Rightarrow> Some (x = y)))"

text \<open>Three-valued \<^verbatim>\<open>OR\<close>, and the \<^verbatim>\<open>OR\<close> of a list of conditions.\<close>

definition sql_or :: "bool option \<Rightarrow> bool option \<Rightarrow> bool option" where
  "sql_or a b =
     (if a = Some True \<or> b = Some True then Some True
      else if a = Some False \<and> b = Some False then Some False
      else None)"

fun sql_or_list :: "bool option list \<Rightarrow> bool option" where
  "sql_or_list [] = Some False"
| "sql_or_list [a] = a"
| "sql_or_list (a # b # bs) = sql_or a (sql_or_list (b # bs))"

text \<open>The aggregate \<^verbatim>\<open>MAX\<close>: \<^verbatim>\<open>NULL\<close> over no rows.\<close>

fun sql_max :: "int list \<Rightarrow> int option" where
  "sql_max [] = None"
| "sql_max (x # xs) = Some (fold max xs x)"

text \<open>The tables \<^verbatim>\<open>jcmt.COMMON\<close>, \<^verbatim>\<open>omp.ompobslog\<close>, \<^verbatim>\<open>jcmt.FILES\<close> and \<^verbatim>\<open>jcmt.transfer\<close>,
  with the columns the queries name.\<close>

record common_row =
  obsid :: string
  utdate :: int
  date_obs :: datetime
  date_end :: datetime
  instrume :: string
  recipe :: string
  project :: string
  last_modified :: datetime
  last_caom_mod :: "datetime option"
  wvmtaust :: "real option"
  wvmtauen :: "real option"
  wvmdatst :: "datetime option"
  wvmdaten :: "datetime option"
  tau225st :: "real option"
  tau225en :: "real option"

record obslog_row =
  obslogid :: int
  o_obsid :: string
  obsactive :: int
  commentstatus :: int
  commenttext :: string
  commentauthor :: string
  commentdate :: datetime

record files_row =
  f_file_id :: int
  f_obsid :: string

record transfer_row =
  t_file_id :: int
  t_status :: string

record jcmt_db =
  COMMON :: "common_row list"
  ompobslog :: "obslog_row list"
  FILES :: "files_row list"
  transfer :: "transfer_row list"

text \<open>
  What the server knows besides the tables: \<^verbatim>\<open>NOW()\<close> (in the system time zone),
  \<^verbatim>\<open>UTC_TIMESTAMP()\<close>, and the conversion \<^verbatim>\<open>CONVERT_TZ(d, "+00:00", "SYSTEM")\<close> from UTC
  to the system time zone.
\<close>

record server =
  NOW :: datetime
  UTC_TIMESTAMP :: datetime
  CONVERT_TZ_SYSTEM :: "datetime \<Rightarrow> datetime"

section \<open>The eligibility evaluator: \<^verbatim>\<open>find_obs_for_ingestion\<close>\<close>

text \<open>
  The function appends condition strings to the list \<^verbatim>\<open>where\<close> and joins them with
  \<^verbatim>\<open>AND\<close>. Each condition it can append is a constructor here; \<open>render\<close> gives the string
  the code writes and \<open>holds\<close> what the server computes for it on a row \<^verbatim>\<open>c\<close> of
  \<^verbatim>\<open>jcmt.COMMON\<close>.
\<close>

datatype status_clause =
    Last_caom_mod_is_null
  | Last_modified_after
  | Last_comment_after

datatype where_clause =
    Utdate_ge
  | Utdate_le
  | Instrume_not_in "string list"
  | Min_age
  | Status_condition "status_clause list"
  | Transfer_check

text \<open>\<^verbatim>\<open>'"{}"'.format(x)\<close>: the instrument name between double quotes.\<close>

definition quote_double :: "string \<Rightarrow> string" where
  "quote_double x = [CHR 0x22] @ x @ [CHR 0x22]"

fun render_status :: "status_clause \<Rightarrow> string" where
  "render_status Last_caom_mod_is_null = ''(last_caom_mod IS NULL)''"
| "render_status Last_modified_after = ''(last_modified > last_caom_mod)''"
| "render_status Last_comment_after =
     ''(last_caom_mod < (SELECT CONVERT_TZ(MAX(commentdate), '' @ quote_double ''+00:00''
       @ '', '' @ quote_double ''SYSTEM'' @ '')''
       @ '' FROM omp.ompobslog AS o''
       @ '' WHERE o.obsid=c.obsid))''"

fun render :: "where_clause \<Rightarrow> string" where
  "render Utdate_ge = ''(utdate >= %(us)s)''"
| "render Utdate_le = ''(utdate <= %(ue)s)''"
| "render (Instrume_not_in ignore_instruments) =
     ''(instrume not in ('' @ py_join '', '' (map quote_double ignore_instruments) @ ''))''"
| "render Min_age = ''(TIMESTAMPDIFF(HOUR, date_obs, UTC_TIMESTAMP()) >= %(ma)s)''"
| "render (Status_condition status_condition) =
     ''('' @ py_join '' OR '' (map render_status status_condition) @ '')''"
| "render Transfer_check =
     ''(SELECT COUNT(*) FROM jcmt.FILES AS f''
       @ '' JOIN jcmt.transfer AS t''
       @ '' ON f.file_id=t.file_id''
       @ '' WHERE f.obsid=c.obsid''
       @ '' AND t.status NOT IN ('' @ quote_double ''t'' @ '', '' @ quote_double ''d''
       @ '', '' @ quote_double ''D'' @ '', '' @ quote_double ''z'' @ ''))''
       @ '' = 0''"

text \<open>
  \<^verbatim>\<open>SELECT CONVERT_TZ(MAX(commentdate), "+00:00", "SYSTEM") FROM omp.ompobslog AS o
  WHERE o.obsid=c.obsid\<close>: the latest comment date among all log rows of the observation,
  in the system time zone.
\<close>

definition max_commentdate :: "jcmt_db \<Rightarrow> string \<Rightarrow> datetime option" where
  "max_commentdate db ob = sql_max (map commentdate (filter (\<lambda>l. o_obsid l = ob) (ompobslog db)))"

fun holds_status :: "server \<Rightarrow> jcmt_db \<Rightarrow> common_row \<Rightarrow> status_clause \<Rightarrow> bool option" where
  "holds_status sv db c Last_caom_mod_is_null = Some (last_caom_mod c = None)"
| "holds_status sv db c Last_modified_after = sql_lt (last_caom_mod c) (Some (last_modified c))"
| "holds_status sv db c Last_comment_after =
     sql_lt (last_caom_mod c) (map_option (CONVERT_TZ_SYSTEM sv) (max_commentdate db (obsid c)))"

text \<open>
  \<^verbatim>\<open>SELECT COUNT(*) FROM jcmt.FILES AS f JOIN jcmt.transfer AS t ON f.file_id=t.file_id
  WHERE f.obsid=c.obsid AND t.status NOT IN ("t", "d", "D", "z")\<close>.
\<close>

definition files_in_transfer :: "jcmt_db \<Rightarrow> string \<Rightarrow> nat" where
  "files_in_transfer db ob =
     length (concat (map (\<lambda>f. filter (\<lambda>t. f_file_id f = t_file_id t \<and> f_obsid f = ob
                                          \<and> t_status t \<notin> {''t'', ''d'', ''D'', ''z''})
                                   (transfer db))
                         (FILES db)))"

text \<open>A placeholder \<^verbatim>\<open>%(name)s\<close> is replaced by the integer the mapping binds to it.\<close>

definition int_param :: "params \<Rightarrow> string \<Rightarrow> int option" where
  "int_param ps name = (case ps name of Some (IntV v) \<Rightarrow> Some v | _ \<Rightarrow> None)"

fun holds :: "server \<Rightarrow> jcmt_db \<Rightarrow> params \<Rightarrow> common_row \<Rightarrow> where_clause \<Rightarrow> bool option" where
  "holds sv db ps c Utdate_ge = map_option (\<lambda>us. us \<le> utdate c) (int_param ps ''us'')"
| "holds sv db ps c Utdate_le = map_option (\<lambda>ue. utdate c \<le> ue) (int_param ps ''ue'')"
| "holds sv db ps c (Instrume_not_in ignore_instruments) =
     Some (instrume c \<notin> set ignore_instruments)"
| "holds sv db ps c Min_age =
     map_option (\<lambda>ma. ma \<le> TIMESTAMPDIFF 3600 (date_obs c) (UTC_TIMESTAMP sv)) (int_param ps ''ma'')"
| "holds sv db ps c (Status_condition status_condition) =
     sql_or_list (map (holds_status sv db c) status_condition)"
| "holds sv db ps c Transfer_check = Some (files_in_transfer db (obsid c) = 0)"

text \<open>
  The first half of the function: the list \<^verbatim>\<open>where\<close> and the dictionary \<^verbatim>\<open>args\<close>.
  \<^verbatim>\<open>
  where = []
  args = {}
  if utdate_start is not None:
      args['us'] = utdate_start
      where.append('(utdate >= %(us)s)')
  if utdate_end is not None:
      args['ue'] = utdate_end
      where.append('(utdate <= %(ue)s)')
  if ignore_instruments:
      where.append('(instrume not in ({}))'.format(', '.join(
          ['"{}"'.format(x) for x in ignore_instruments])))
  if min_age_hours is not None:
      args['ma'] = min_age_hours
      where.append('(TIMESTAMPDIFF(HOUR, date_obs, UTC_TIMESTAMP()) >= %(ma)s)')
  status_condition = ['(last_caom_mod IS NULL)', '(last_modified > last_caom_mod)']
  if not no_status_check:
      status_condition.append('(last_caom_mod < (SELECT CONVERT_TZ(MAX(commentdate), ...')
  where.append('(' + ' OR '.join(status_condition) + ')')
  if not no_transfer_check:
      where.append('(SELECT COUNT(*) ... = 0')
  query = 'SELECT obsid FROM jcmt.COMMON AS c WHERE ' + ' AND '.join(where)
  \<close>
\<close>

definition status_condition_of :: "bool \<Rightarrow> status_clause list" where
  "status_condition_of no_status_check =
     (let status_condition = [Last_caom_mod_is_null, Last_modified_after]
      in if \<not> no_status_check then status_condition @ [Last_comment_after]
         else status_condition)"

definition find_obs_where ::
  "int option \<Rightarrow> int option \<Rightarrow> bool \<Rightarrow> bool \<Rightarrow> string list option \<Rightarrow> int option
     \<Rightarrow> where_clause list \<times> params" where
  "find_obs_where utdate_start utdate_end no_status_check no_transfer_check
       ignore_instruments min_age_hours =
    (let where0 = [];
         args0 = Map.empty;
         \<comment> \<open>\<^verbatim>\<open>if utdate_start is not None:\<close>\<close>
         args1 = (case utdate_start of None \<Rightarrow> args0 | Some us \<Rightarrow> args0(''us'' \<mapsto> IntV us));
         where1 = (case utdate_start of None \<Rightarrow> where0 | Some us \<Rightarrow> where0 @ [Utdate_ge]);
         \<comment> \<open>\<^verbatim>\<open>if utdate_end is not None:\<close>\<close>
         args2 = (case utdate_end of None \<Rightarrow> args1 | Some ue \<Rightarrow> args1(''ue'' \<mapsto> IntV ue));
         where2 = (case utdate_end of None \<Rightarrow> where1 | Some ue \<Rightarrow> where1 @ [Utdate_le]);
         \<comment> \<open>\<^verbatim>\<open>if ignore_instruments:\<close>\<close>
         where3 = (case ignore_instruments of None \<Rightarrow> where2
                   | Some xs \<Rightarrow> if xs \<noteq> [] then where2 @ [Instrume_not_in xs] else where2);
         \<comment> \<open>\<^verbatim>\<open>if min_age_hours is not None:\<close>\<close>
         args4 = (case min_age_hours of None \<Rightarrow> args2 | Some ma \<Rightarrow> args2(''ma'' \<mapsto> IntV ma));
         where4 = (case min_age_hours of None \<Rightarrow> where3 | Some ma \<Rightarrow> where3 @ [Min_age]);
         where5 = where4 @ [Status_condition (status_condition_of no_status_check)];
         \<comment> \<open>\<^verbatim>\<open>if not no_transfer_check:\<close>\<close>
         where6 = (if \<not> no_transfer_check then where5 @ [Transfer_check] else where5)
     in (where6, args4))"

definition find_obs_query ::
  "int option \<Rightarrow> int option \<Rightarrow> bool \<Rightarrow> bool \<Rightarrow> string list option \<Rightarrow> int option
     \<Rightarrow> string \<times> params" where
  "find_obs_query utdate_start utdate_end no_status_check no_transfer_check
       ignore_instruments min_age_hours =
    (let w = find_obs_where utdate_start utdate_end no_status_check no_transfer_check
               ignore_instruments min_age_hours
     in (''SELECT obsid FROM jcmt.COMMON AS c WHERE '' @ py_join '' AND '' (map render (fst w)),
         snd w))"

text \<open>The default of the keyword argument \<^verbatim>\<open>min_age_hours\<close>.\<close>

definition min_age_hours_default :: "int option" where
  "min_age_hours_default = Some 4"

text \<open>
  The second half: the query is executed and the rows are fetched one by one.
  \<^verbatim>\<open>
  result = []
  while True:
      row = c.fetchone()
      if row is None: break
      result.append(row[0])
  return result
  \<close>
  The cursor is the list of rows still to fetch; the server returns the rows of
  \<^verbatim>\<open>jcmt.COMMON\<close> on which every condition of the conjunction is true.
\<close>

definition selected :: "server \<Rightarrow> jcmt_db \<Rightarrow> where_clause list \<times> params \<Rightarrow> common_row \<Rightarrow> bool" where
  "selected sv db w c = list_all (\<lambda>cl. holds sv db (snd w) c cl = Some True) (fst w)"

fun fetch_loop :: "string list \<Rightarrow> string list \<Rightarrow> string list" where
  "fetch_loop [] result = result"
| "fetch_loop (row # cursor) result = fetch_loop cursor (result @ [row])"

definition find_obs_for_ingestion ::
  "server \<Rightarrow> jcmt_db \<Rightarrow> int option \<Rightarrow> int option \<Rightarrow> bool \<Rightarrow> bool \<Rightarrow> string list option
     \<Rightarrow> int option \<Rightarrow> string list" where
  "find_obs_for_ingestion sv db utdate_start utdate_end no_status_check no_transfer_check
       ignore_instruments min_age_hours =
    (let w = find_obs_where utdate_start utdate_end no_status_check no_transfer_check
               ignore_instruments min_age_hours;
         cursor = map obsid (filter (selected sv db w) (COMMON db))
     in fetch_loop cursor [])"

section \<open>The status mutator: \<^verbatim>\<open>set_last_caom_mod\<close>\<close>

text \<open>
  \<^verbatim>\<open>
  # Explicitly set last_modified to the existing value to prevent
  # MySQL from automatically updating it.
  query = 'UPDATE jcmt.COMMON SET last_caom_mod = ' + \
      ('NULL' if set_null else 'NOW()') + \
      ', last_modified = last_modified' + \
      ' WHERE obsid=%(o)s'
  args = {'o': obsid}
  with self.db.transaction(read_write=True) as c:
      c.execute(query, args)
  \<close>
\<close>

definition set_last_caom_mod_query :: "string \<Rightarrow> bool \<Rightarrow> string \<times> params" where
  "set_last_caom_mod_query ob set_null =
     (''UPDATE jcmt.COMMON SET last_caom_mod = '' @
        (if set_null then ''NULL'' else ''NOW()'') @
        '', last_modified = last_modified'' @
        '' WHERE obsid=%(o)s'',
      [''o'' \<mapsto> StrV ob])"

text \<open>The assignments an \<^verbatim>\<open>UPDATE jcmt.COMMON SET ...\<close> of this module can hold.\<close>

datatype common_assignment =
    Last_caom_mod_NOW
  | Last_caom_mod_NULL
  | Last_modified_last_modified

fun render_assignment :: "common_assignment \<Rightarrow> string" where
  "render_assignment Last_caom_mod_NOW = ''last_caom_mod = NOW()''"
| "render_assignment Last_caom_mod_NULL = ''last_caom_mod = NULL''"
| "render_assignment Last_modified_last_modified = ''last_modified = last_modified''"

fun assign :: "server \<Rightarrow> common_row \<Rightarrow> common_assignment \<Rightarrow> common_row" where
  "assign sv r Last_caom_mod_NOW = r \<lparr> last_caom_mod := Some (NOW sv) \<rparr>"
| "assign sv r Last_caom_mod_NULL = r \<lparr> last_caom_mod := None \<rparr>"
| "assign sv r Last_modified_last_modified = r \<lparr> last_modified := last_modified r \<rparr>"

fun assigns_last_modified :: "common_assignment \<Rightarrow> bool" where
  "assigns_last_modified Last_modified_last_modified = True"
| "assigns_last_modified _ = False"

text \<open>
  The server's \<^verbatim>\<open>UPDATE\<close> on \<^verbatim>\<open>jcmt.COMMON\<close>. The assignments are carried out from left
  to right on every row the condition selects. The column \<^verbatim>\<open>last_modified\<close> is
  updated automatically: when an \<^verbatim>\<open>UPDATE\<close> changes a row and does not assign
  \<^verbatim>\<open>last_modified\<close> itself, the server sets it to the current time.
\<close>

definition UPDATE_COMMON ::
  "server \<Rightarrow> common_assignment list \<Rightarrow> (common_row \<Rightarrow> bool) \<Rightarrow> common_row list
     \<Rightarrow> common_row list" where
  "UPDATE_COMMON sv assignments cond rows =
     map (\<lambda>r. if cond r
               then (let r' = foldl (assign sv) r assignments
                     in if r' \<noteq> r \<and> \<not> list_ex assigns_last_modified assignments
                        then r' \<lparr> last_modified := NOW sv \<rparr>
                        else r')
               else r)
         rows"

definition set_last_caom_mod_assignments :: "bool \<Rightarrow> common_assignment list" where
  "set_last_caom_mod_assignments set_null =
     [if set_null then Last_caom_mod_NULL else Last_caom_mod_NOW, Last_modified_last_modified]"

definition set_last_caom_mod :: "server \<Rightarrow> jcmt_db \<Rightarrow> string \<Rightarrow> bool \<Rightarrow> jcmt_db" where
  "set_last_caom_mod sv db ob set_null =
     db \<lparr> COMMON := UPDATE_COMMON sv (set_last_caom_mod_assignments set_null)
                       (\<lambda>r. obsid r = ob) (COMMON db) \<rparr>"

section \<open>The point lookup: \<^verbatim>\<open>get_obsid_status\<close>\<close>

text \<open>
  \<^verbatim>\<open>
  query = ('SELECT commentstatus FROM omp.ompobslog '
          'WHERE obslogid = '
          '(SELECT MAX(obslogid) FROM omp.ompobslog '
          'WHERE obsid=%(o)s AND obsactive=1)')
  ...
  if not rows:
      return None
  if len(rows) > 1:
      raise OMPDBError('multiple status results for one obsid')
  if not comment:
      return rows[0][0]
  else:
      return rows[0]
  \<close>
  A raised exception is the left summand of the result; the returned value is either
  the status alone or the four selected columns.
\<close>

datatype omp_error = OMPDBError string

datatype obsid_status =
    Commentstatus int
  | Comment_row int string string datetime

definition max_active_obslogid :: "jcmt_db \<Rightarrow> string \<Rightarrow> int option" where
  "max_active_obslogid db ob =
     sql_max (map obslogid (filter (\<lambda>l. o_obsid l = ob \<and> obsactive l = 1) (ompobslog db)))"

definition get_obsid_status_rows :: "jcmt_db \<Rightarrow> string \<Rightarrow> obslog_row list" where
  "get_obsid_status_rows db ob =
     filter (\<lambda>l. sql_eq (Some (obslogid l)) (max_active_obslogid db ob) = Some True)
            (ompobslog db)"

definition get_obsid_status ::
  "jcmt_db \<Rightarrow> string \<Rightarrow> bool \<Rightarrow> omp_error + obsid_status option" where
  "get_obsid_status db ob comment =
     (let rows = get_obsid_status_rows db ob
      in if rows = [] then Inr None
         else if length rows > 1
         then Inl (OMPDBError ''multiple status results for one obsid'')
         else if \<not> comment then Inr (Some (Commentstatus (commentstatus (rows ! 0))))
         else Inr (Some (Comment_row (commentstatus (rows ! 0)) (commenttext (rows ! 0))
                           (commentauthor (rows ! 0)) (commentdate (rows ! 0)))))"

section \<open>The aggregate reports: the inner stage of \<^verbatim>\<open>get_summary_obs_info\<close> and
  \<^verbatim>\<open>get_summary_obs_info_group\<close>\<close>

text \<open>
  Both functions wrap an inner \<^verbatim>\<open>SELECT\<close>, which computes one row per observation of
  \<^verbatim>\<open>jcmt.COMMON\<close> (joined with its latest log row \<^verbatim>\<open>o\<close>, when there is one), in an outer
  \<^verbatim>\<open>SELECT\<close> that groups these rows by project, instrument, band, comment status and
  day/night label. Each function has two texts for the inner \<^verbatim>\<open>SELECT\<close>, chosen by the
  flag \<^verbatim>\<open>csotau\<close>. The four select lists are translated one by one.
\<close>

record inner_row =
  sel_project :: string
  sel_instrume :: string
  duration :: int
  sel_commentstatus :: int
  band :: string
  daynight :: string

text \<open>A \<^verbatim>\<open>WHEN\<close> branch is taken only when its condition is true, not when it is unknown.\<close>

definition is_true :: "bool option \<Rightarrow> bool" where
  "is_true b = (b = Some True)"

definition sql_and :: "bool option \<Rightarrow> bool option \<Rightarrow> bool option" where
  "sql_and a b =
     (if a = Some False \<or> b = Some False then Some False
      else if a = Some True \<and> b = Some True then Some True
      else None)"

text \<open>\<^verbatim>\<open>(a+b)/2.0\<close> on nullable columns.\<close>

definition mean_tau :: "real option \<Rightarrow> real option \<Rightarrow> real option" where
  "mean_tau a b = (case a of None \<Rightarrow> None
                   | Some x \<Rightarrow> (case b of None \<Rightarrow> None | Some y \<Rightarrow> Some ((x + y) / 2)))"

text \<open>\<^verbatim>\<open>x between lo and hi\<close> (both ends included), \<^verbatim>\<open>x <= hi\<close> and \<^verbatim>\<open>x < hi\<close>.\<close>

definition sql_between :: "real option \<Rightarrow> real \<Rightarrow> real \<Rightarrow> bool option" where
  "sql_between x lo hi = map_option (\<lambda>v. lo \<le> v \<and> v \<le> hi) x"

definition sql_le_real :: "real option \<Rightarrow> real \<Rightarrow> bool option" where
  "sql_le_real x hi = map_option (\<lambda>v. v \<le> hi) x"

definition sql_lt_real :: "real option \<Rightarrow> real \<Rightarrow> bool option" where
  "sql_lt_real x hi = map_option (\<lambda>v. v < hi) x"

text \<open>\<^verbatim>\<open>ABS(TIMESTAMPDIFF(minute, a, b)) < n\<close> for a nullable \<open>a\<close>.\<close>

definition abs_minutes_lt :: "datetime option \<Rightarrow> datetime \<Rightarrow> int \<Rightarrow> bool option" where
  "abs_minutes_lt a b n = map_option (\<lambda>v. \<bar>TIMESTAMPDIFF 60 v b\<bar> < n) a"

text \<open>
  \<^verbatim>\<open>HOUR(date_obs)+MINUTE(date_obs)/60.0\<close>, with the quotient taken exactly. The server
  divides an integer by the decimal \<^verbatim>\<open>60.0\<close> and keeps four decimals of the quotient,
  rounded (\<open>decimal_hour_rounded\<close>); the select lists are translated with the exact sum,
  and lemma \<open>decimal_hour_rounding_harmless\<close> shows that the test
  \<^verbatim>\<open>between 3.5 and 19.5\<close> has the same result on both.
\<close>

definition decimal_hour :: "datetime \<Rightarrow> real" where
  "decimal_hour d = real_of_int (HOUR d) + real_of_int (MINUTE d) / 60"

definition decimal_hour_rounded :: "datetime \<Rightarrow> real" where
  "decimal_hour_rounded d =
     real_of_int (HOUR d) + real_of_int (round (real_of_int (MINUTE d) * 10000 / 60)) / 10000"

text \<open>
  \<^verbatim>\<open>get_summary_obs_info_group\<close>, \<^verbatim>\<open>csotau=False\<close>:
  \<^verbatim>\<open>
  SELECT c.project,
         CASE WHEN c.recipe='REDUCE_POL_SCAN' THEN 'POL-2' ELSE c.instrume END AS instrume,
         timestampdiff(second, c.date_obs, c.date_end) as duration,
         CASE WHEN o.commentstatus is NULL THEN 0 ELSE o.commentstatus END AS commentstatus,
         CASE WHEN ABS(TIMESTAMPDIFF(minute, wvmdatst, date_obs)) < 10 AND
                   ABS(TIMESTAMPDIFF(minute, wvmdaten, date_end)) < 10
              THEN
                CASE WHEN (wvmtaust+wvmtauen)/2.0 between 0.0005  and 0.05 then '1'
                  WHEN (wvmtaust+wvmtauen)/2.0 <= 0.08 then '2'
                  WHEN (wvmtaust+wvmtauen)/2.0 <= 0.12 then '3'
                  WHEN (wvmtaust+wvmtauen)/2.0 <= 0.2  then '4'
                  WHEN (wvmtaust+wvmtauen)/2.0 < 50  then '5'
                  ELSE 'unknown'
                END
              ELSE 'unknown'
         END AS band,
         CASE WHEN HOUR(date_obs)+MINUTE(date_obs)/60.0 between 3.5 and 19.5 THEN 'night'
              ELSE 'day'
         END AS daynight
  \<close>
\<close>

definition select_inner_group_wvmtau :: "common_row \<Rightarrow> obslog_row option \<Rightarrow> inner_row" where
  "select_inner_group_wvmtau c ol =
     \<lparr> sel_project = project c,
       sel_instrume = (if recipe c = ''REDUCE_POL_SCAN'' then ''POL-2'' else instrume c),
       duration = TIMESTAMPDIFF 1 (date_obs c) (date_end c),
       sel_commentstatus = (case ol of None \<Rightarrow> 0 | Some l \<Rightarrow> commentstatus l),
       band =
         (if is_true (sql_and (abs_minutes_lt (wvmdatst c) (date_obs c) 10)
                              (abs_minutes_lt (wvmdaten c) (date_end c) 10))
          then
            (if is_true (sql_between (mean_tau (wvmtaust c) (wvmtauen c)) 0.0005 0.05) then ''1''
             else if is_true (sql_le_real (mean_tau (wvmtaust c) (wvmtauen c)) 0.08) then ''2''
             else if is_true (sql_le_real (mean_tau (wvmtaust c) (wvmtauen c)) 0.12) then ''3''
             else if is_true (sql_le_real (mean_tau (wvmtaust c) (wvmtauen c)) 0.2) then ''4''
             else if is_true (sql_lt_real (mean_tau (wvmtaust c) (wvmtauen c)) 50) then ''5''
             else ''unknown'')
          else ''unknown''),
       daynight =
         (if is_true (sql_between (Some (decimal_hour (date_obs c))) 3.5 19.5) then ''night''
          else ''day'') \<rparr>"

text \<open>
  \<^verbatim>\<open>get_summary_obs_info_group\<close>, \<^verbatim>\<open>csotau=True\<close>:
  \<^verbatim>\<open>
  SELECT c.project, c.instrume, timestampdiff(second, c.date_obs, c.date_end) as duration,
         CASE WHEN o.commentstatus is NULL THEN 0 ELSE o.commentstatus END AS commentstatus,
         CASE WHEN (tau225st+tau225en)/2.0 between 0.005 and 0.05 then '1'
              WHEN (tau225st+tau225en)/2.0 between 0.05 and 0.08 then '2'
              WHEN (tau225st+tau225en)/2.0 between 0.08 and 0.12 then '3'
              WHEN (tau225st+tau225en)/2.0 between 0.12 and 0.2  then '4'
              WHEN (tau225st+tau225en)/2.0 between 0.2  and 100  then '5'
              ELSE 'unknown'
         END AS band,
         CASE WHEN HOUR(date_obs)+MINUTE(date_obs)/60.0 between 3.5 and 19.5 THEN 'night'
              ELSE 'day'
         END AS daynight
  \<close>
\<close>

definition select_inner_group_csotau :: "common_row \<Rightarrow> obslog_row option \<Rightarrow> inner_row" where
  "select_inner_group_csotau c ol =
     \<lparr> sel_project = project c,
       sel_instrume = instrume c,
       duration = TIMESTAMPDIFF 1 (date_obs c) (date_end c),
       sel_commentstatus = (case ol of None \<Rightarrow> 0 | Some l \<Rightarrow> commentstatus l),
       band =
         (if is_true (sql_between (mean_tau (tau225st c) (tau225en c)) 0.005 0.05) then ''1''
          else if is_true (sql_between (mean_tau (tau225st c) (tau225en c)) 0.05 0.08) then ''2''
          else if is_true (sql_between (mean_tau (tau225st c) (tau225en c)) 0.08 0.12) then ''3''
          else if is_true (sql_between (mean_tau (tau225st c) (tau225en c)) 0.12 0.2) then ''4''
          else if is_true (sql_between (mean_tau (tau225st c) (tau225en c)) 0.2 100) then ''5''
          else ''unknown''),
       daynight =
         (if is_true (sql_between (Some (decimal_hour (date_obs c))) 3.5 19.5) then ''night''
          else ''day'') \<rparr>"

text \<open>
  \<^verbatim>\<open>get_summary_obs_info\<close>, \<^verbatim>\<open>csotau=False\<close>: the select list of the previous text with
  \<^verbatim>\<open>wvmtaust\<close>, \<^verbatim>\<open>wvmtauen\<close> for the two opacity columns.
  \<^verbatim>\<open>
         CASE WHEN (wvmtaust+wvmtauen)/2.0 between 0.005    and 0.05 then '1'
              WHEN (wvmtaust+wvmtauen)/2.0 between 0.05 and 0.08 then '2'
              WHEN (wvmtaust+wvmtauen)/2.0 between 0.08 and 0.12 then '3'
              WHEN (wvmtaust+wvmtauen)/2.0 between 0.12 and 0.2  then '4'
              WHEN (wvmtaust+wvmtauen)/2.0 between 0.2  and 100  then '5'
              ELSE 'unknown'
         END AS band,
         CASE WHEN HOUR(date_obs)+MINUTE(date_obs)/60.0 between 3.5 and 19.5 THEN 'night'
              ELSE 'day'
         END AS daynight
  \<close>
\<close>

definition select_inner_wvmtau :: "common_row \<Rightarrow> obslog_row option \<Rightarrow> inner_row" where
  "select_inner_wvmtau c ol =
     \<lparr> sel_project = project c,
       sel_instrume = instrume c,
       duration = TIMESTAMPDIFF 1 (date_obs c) (date_end c),
       sel_commentstatus = (case ol of None \<Rightarrow> 0 | Some l \<Rightarrow> commentstatus l),
       band =
         (if is_true (sql_between (mean_tau (wvmtaust c) (wvmtauen c)) 0.005 0.05) then ''1''
          else if is_true (sql_between (mean_tau (wvmtaust c) (wvmtauen c)) 0.05 0.08) then ''2''
          else if is_true (sql_between (mean_tau (wvmtaust c) (wvmtauen c)) 0.08 0.12) then ''3''
          else if is_true (sql_between (mean_tau (wvmtaust c) (wvmtauen c)) 0.12 0.2) then ''4''
          else if is_true (sql_between (mean_tau (wvmtaust c) (wvmtauen c)) 0.2 100) then ''5''
          else ''unknown''),
       daynight =
         (if is_true (sql_between (Some (decimal_hour (date_obs c))) 3.5 19.5) then ''night''
          else ''day'') \<rparr>"

text \<open>
  \<^verbatim>\<open>get_summary_obs_info\<close>, \<^verbatim>\<open>csotau=True\<close>: the same text as in
  \<^verbatim>\<open>get_summary_obs_info_group\<close> with \<^verbatim>\<open>csotau=True\<close>.
\<close>

definition select_inner_csotau :: "common_row \<Rightarrow> obslog_row option \<Rightarrow> inner_row" where
  "select_inner_csotau c ol =
     \<lparr> sel_project = project c,
       sel_instrume = instrume c,
       duration = TIMESTAMPDIFF 1 (date_obs c) (date_end c),
       sel_commentstatus = (case ol of None \<Rightarrow> 0 | Some l \<Rightarrow> commentstatus l),
       band =
         (if is_true (sql_between (mean_tau (tau225st c) (tau225en c)) 0.005 0.05) then ''1''
          else if is_true (sql_between (mean_tau (tau225st c) (tau225en c)) 0.05 0.08) then ''2''
          else if is_true (sql_between (mean_tau (tau225st c) (tau225en c)) 0.08 0.12) then ''3''
          else if is_true (sql_between (mean_tau (tau225st c) (tau225en c)) 0.12 0.2) then ''4''
          else if is_true (sql_between (mean_tau (tau225st c) (tau225en c)) 0.2 100) then ''5''
          else ''unknown''),
       daynight =
         (if is_true (sql_between (Some (decimal_hour (date_obs c))) 3.5 19.5) then ''night''
          else ''day'') \<rparr>"

text \<open>The inner select list each function uses, by its flag \<^verbatim>\<open>csotau\<close>.\<close>

definition get_summary_obs_info_group_inner ::
  "bool \<Rightarrow> common_row \<Rightarrow> obslog_row option \<Rightarrow> inner_row" where
  "get_summary_obs_info_group_inner csotau =
     (if csotau then select_inner_group_csotau else select_inner_group_wvmtau)"

definition get_summary_obs_info_inner ::
  "bool \<Rightarrow> common_row \<Rightarrow> obslog_row option \<Rightarrow> inner_row" where
  "get_summary_obs_info_inner csotau =
     (if csotau then select_inner_csotau else select_inner_wvmtau)"


section \<open>The rename transaction: \<^verbatim>\<open>rename_project\<close>\<close>

text \<open>
  \<^verbatim>\<open>
  tables = ['ompfaultassoc', 'ompfeedback', 'ompmsb', 'ompmsbdone', 'ompobs', 'ompobs',
            'ompproj', 'ompprojaffiliation', 'ompprojqueue', 'ompprojuser', 'ompsciprog',
            'omptimeacct']
  with self.db.transaction(read_write=False) as c:
      for table in tables:
          c.execute('SELECT COUNT(*) FROM omp.{} WHERE projectid=%(n)s'.format(table),
                    {'n': project_new})
          n_existing = c.fetchall()[0][0]
          if n_existing != 0:
              raise OMPDBError('project code {} already exists in table {}'.format(
                  project_new, table))
  with self.db.transaction(read_write=True) as c:
      for table in tables:
          c.execute('UPDATE omp.{} SET projectid=%(n)s WHERE projectid=%(o)s'.format(table),
                    {'n': project_new, 'o': project_old})
  \<close>
  The tables of the \<^verbatim>\<open>omp\<close> database are reached by name. A row has the column
  \<^verbatim>\<open>projectid\<close> and further columns, which the function never reads. The state also
  records the statements the cursor has executed, in order.
\<close>

record 'a omp_row =
  projectid :: string
  columns :: 'a

datatype statement =
    SELECT_COUNT string string
  | UPDATE string string string

record 'a omp_state =
  omp :: "string \<Rightarrow> 'a omp_row list"
  executed :: "statement list"


text \<open>\<^verbatim>\<open>SELECT COUNT(*) FROM omp.{table} WHERE projectid=%(n)s\<close>.\<close>

definition count_projectid :: "'a omp_state \<Rightarrow> string \<Rightarrow> string \<Rightarrow> nat" where
  "count_projectid st table n = length (filter (\<lambda>r. projectid r = n) (omp st table))"








section \<open>The project lookup: \<^verbatim>\<open>get_project_info\<close>\<close>

text \<open>
  \<^verbatim>\<open>
  query_users = ("SELECT u.userid, uname, email, cadcuser, contactable, capacity "
                 "FROM omp.ompprojuser AS pu  JOIN omp.ompuser AS u ON pu.userid=u.userid "
                 "WHERE projectid=%(p)s")
  query_proj = ("SELECT p.projectid, title, semester, country, allocated/(60.0*60.0), "
                "remaining/(60.0*60.0), taumin, taumax, state "
                "FROM omp.ompproj as p join omp.ompprojqueue as q ON p.projectid=q.projectid "
                "WHERE p.projectid=%(p)s")
  \<close>
\<close>

record ompproj_row =
  p_projectid :: string
  p_title :: string
  p_semester :: string
  p_allocated :: real
  p_remaining :: real
  p_taumin :: real
  p_taumax :: real
  p_state :: int

record ompprojqueue_row =
  q_projectid :: string
  q_country :: string

record ompprojuser_row =
  pu_projectid :: string
  pu_userid :: string
  pu_capacity :: string

record userinfo =
  userid :: string
  uname :: string
  email :: string
  cadcuser :: "string option"
  contactable :: int


record project_db =
  ompproj :: "ompproj_row list"
  ompprojqueue :: "ompprojqueue_row list"
  ompprojuser :: "ompprojuser_row list"
  ompuser :: "userinfo list"








section \<open>The status condition in the words of the specification\<close>

text \<open>
  The dates of all log rows of an observation, which is what
  \<^verbatim>\<open>MAX(commentdate) ... WHERE o.obsid=c.obsid\<close> ranges over.
\<close>

definition comment_dates :: "jcmt_db \<Rightarrow> string \<Rightarrow> datetime set" where
  "comment_dates db ob = set (map commentdate (filter (\<lambda>l. o_obsid l = ob) (ompobslog db)))"

text \<open>
  The specification's ``most recent comment'' of an observation: the row with the
  greatest \<^verbatim>\<open>obslogid\<close> among its rows with \<^verbatim>\<open>obsactive = 1\<close>.
\<close>

definition most_recent_active_comment :: "jcmt_db \<Rightarrow> string \<Rightarrow> obslog_row option" where
  "most_recent_active_comment db ob =
     (let active = filter (\<lambda>l. o_obsid l = ob \<and> obsactive l = 1) (ompobslog db)
      in case sql_max (map obslogid active) of
           None \<Rightarrow> None
         | Some m \<Rightarrow> find (\<lambda>l. obslogid l = m) active)"

text \<open>
  The status condition as the specification states it: \<^verbatim>\<open>last_caom_mod\<close> is null, or
  \<^verbatim>\<open>last_modified\<close> is after it, or (unless \<^verbatim>\<open>no_status_check\<close>) the date of the most
  recent active comment, converted to the system time zone, is after it.
\<close>

definition claimed_status_condition :: "server \<Rightarrow> jcmt_db \<Rightarrow> bool \<Rightarrow> common_row \<Rightarrow> bool" where
  "claimed_status_condition sv db no_status_check c =
     (case last_caom_mod c of
        None \<Rightarrow> True
      | Some m \<Rightarrow>
          m < last_modified c \<or>
          (\<not> no_status_check \<and>
           (case most_recent_active_comment db (obsid c) of
              None \<Rightarrow> False
            | Some l \<Rightarrow> m < CONVERT_TZ_SYSTEM sv (commentdate l))))"

section \<open>Example states\<close>

text \<open>A server ten hours behind UTC.\<close>

definition hawaii :: server where
  "hawaii = \<lparr> NOW = 1000000, UTC_TIMESTAMP = 1036000, CONVERT_TZ_SYSTEM = (\<lambda>d. d - 36000) \<rparr>"

text \<open>
  An observation that started at 03:30:00 UTC, was last modified at 400000 and was
  ingested at 500000.
\<close>

definition example_obs :: common_row where
  "example_obs =
     \<lparr> obsid = ''scuba2_00012_20200101T033000'',
       utdate = 20200101,
       date_obs = at_time 0 3 30 0,
       date_end = at_time 0 4 0 0,
       instrume = ''SCUBA-2'',
       recipe = ''REDUCE_SCAN'',
       project = ''M20AI001'',
       last_modified = 400000,
       last_caom_mod = Some 500000,
       wvmtaust = Some 0.001,
       wvmtauen = Some 0.001,
       wvmdatst = Some (at_time 0 3 30 0),
       wvmdaten = Some (at_time 0 4 0 0),
       tau225st = Some 0.001,
       tau225en = Some 0.001 \<rparr>"

text \<open>
  Its log: an active comment made before the ingestion and a later comment that is no
  longer active.
\<close>

definition example_log :: "obslog_row list" where
  "example_log =
     [\<lparr> obslogid = 1, o_obsid = ''scuba2_00012_20200101T033000'', obsactive = 1,
        commentstatus = 0, commenttext = ''fine'', commentauthor = ''A'',
        commentdate = 100000 \<rparr>,
      \<lparr> obslogid = 2, o_obsid = ''scuba2_00012_20200101T033000'', obsactive = 0,
        commentstatus = 1, commenttext = ''check'', commentauthor = ''B'',
        commentdate = 600000 \<rparr>]"

definition example_db :: jcmt_db where
  "example_db = \<lparr> COMMON = [example_obs], ompobslog = example_log, FILES = [], transfer = [] \<rparr>"





section \<open>Properties of the predicate builder\<close>

lemma py_join_nonempty: "x \<noteq> [] \<Longrightarrow> py_join sep (x # xs) \<noteq> []"
  by (cases xs) simp_all

lemma projects_fragment_empty_iff:
  "projects_fragment ps = '' p.projectid in () '' \<longleftrightarrow> ps = []"
proof (cases ps)
  case Nil
  then show ?thesis by (simp add: projects_fragment_def)
next
  case (Cons p qs)
  have "py_join '', '' (map quote_single (p # qs)) \<noteq> []"
    using py_join_nonempty [of "quote_single p" "'', ''" "map quote_single qs"]
    by (simp add: quote_single_def)
  then show ?thesis
    using Cons by (simp add: projects_fragment_def Let_def)
qed

lemma wherequery_closed_form:
  "wherequery (create_group_project_query semester queue projects patternmatch telescope) =
     (if truthy queue then ['' q.country=%(queue)s ''] else []) @
     (if truthy semester then ['' p.semester=%(semester)s ''] else []) @
     (if projects_given projects then [projects_fragment (the projects)] else []) @
     (if truthy patternmatch then ['' p.projectid LIKE %(pattern)s ''] else []) @
     (if truthy telescope then ['' p.telescope=%(telescope)s ''] else [])"
  by (simp add: create_group_project_query_def Let_def)

lemma args_closed_form:
  "args (create_group_project_query semester queue projects patternmatch telescope) =
     (\<lambda>name.
        if name = ''telescope'' \<and> truthy telescope then Some (StrV (the telescope))
        else if name = ''pattern'' \<and> truthy patternmatch then Some (StrV (the patternmatch))
        else if name = ''semester'' \<and> truthy semester then Some (StrV (the semester))
        else if name = ''queue'' \<and> truthy queue then Some (StrV (the queue))
        else None)"
  by (rule ext) (simp add: create_group_project_query_def Let_def)

text \<open>
  Claim C6, as amended. A criterion counts as supplied when its test in the code
  succeeds: a non-empty string for \<^verbatim>\<open>semester\<close>, \<^verbatim>\<open>queue\<close>, \<^verbatim>\<open>patternmatch\<close> and
  \<^verbatim>\<open>telescope\<close>, a non-empty list for \<^verbatim>\<open>projects\<close>. Every supplied criterion
  contributes exactly one fragment, in the order queue, semester, projects, pattern,
  telescope, and every other criterion contributes none; the parameter mapping holds
  exactly the placeholders of the supplied criteria other than the project list. The
  argument \<^verbatim>\<open>telescope\<close> defaults to \<^verbatim>\<open>'JCMT'\<close>: a call that supplies only the semester
  yields the semester fragment and the telescope fragment, and a call without arguments
  yields the telescope fragment and the parameter \<^verbatim>\<open>telescope\<close>. When \<^verbatim>\<open>telescope\<close> is
  passed as \<^verbatim>\<open>None\<close>, supplying only the semester yields exactly the semester fragment,
  and supplying nothing yields an empty fragment list and an empty parameter mapping.
\<close>

theorem create_group_project_query_one_fragment_each:
  "wherequery (create_group_project_query semester queue projects patternmatch telescope) =
     (if truthy queue then ['' q.country=%(queue)s ''] else []) @
     (if truthy semester then ['' p.semester=%(semester)s ''] else []) @
     (if projects_given projects then [projects_fragment (the projects)] else []) @
     (if truthy patternmatch then ['' p.projectid LIKE %(pattern)s ''] else []) @
     (if truthy telescope then ['' p.telescope=%(telescope)s ''] else [])
   \<and> length (wherequery (create_group_project_query semester queue projects patternmatch telescope))
       = n_supplied semester queue projects patternmatch telescope
   \<and> dom (args (create_group_project_query semester queue projects patternmatch telescope))
       = supplied_names semester queue patternmatch telescope
   \<and> wherequery (create_group_project_query (Some ''20A'') None None None telescope_default)
       = ['' p.semester=%(semester)s '', '' p.telescope=%(telescope)s '']
   \<and> wherequery (create_group_project_query (Some ''20A'') None None None None)
       = ['' p.semester=%(semester)s '']
   \<and> wherequery (create_group_project_query None None None None telescope_default)
       = ['' p.telescope=%(telescope)s '']
   \<and> args (create_group_project_query None None None None telescope_default)
       = [''telescope'' \<mapsto> StrV ''JCMT'']
   \<and> wherequery (create_group_project_query None None None None None) = []
   \<and> args (create_group_project_query None None None None None) = Map.empty"
proof -
  have 1: "length (wherequery (create_group_project_query semester queue projects patternmatch telescope))
       = n_supplied semester queue projects patternmatch telescope"
    by (simp add: wherequery_closed_form n_supplied_def)
  have 2: "dom (args (create_group_project_query semester queue projects patternmatch telescope))
       = supplied_names semester queue patternmatch telescope"
    by (auto simp add: args_closed_form supplied_names_def dom_def split: if_splits)
  have 3: "wherequery (create_group_project_query (Some ''20A'') None None None telescope_default)
       = ['' p.semester=%(semester)s '', '' p.telescope=%(telescope)s '']"
    by (simp add: wherequery_closed_form truthy_def projects_given_def telescope_default_def)
  have 4: "wherequery (create_group_project_query (Some ''20A'') None None None None)
       = ['' p.semester=%(semester)s '']"
    by (simp add: wherequery_closed_form truthy_def projects_given_def)
  have 5: "wherequery (create_group_project_query None None None None telescope_default)
       = ['' p.telescope=%(telescope)s '']"
    by (simp add: wherequery_closed_form truthy_def projects_given_def telescope_default_def)
  have 6: "args (create_group_project_query None None None None telescope_default)
       = [''telescope'' \<mapsto> StrV ''JCMT'']"
    by (rule ext) (simp add: args_closed_form truthy_def telescope_default_def)
  have 7: "wherequery (create_group_project_query None None None None None) = []"
    by (simp add: wherequery_closed_form truthy_def projects_given_def)
  have 8: "args (create_group_project_query None None None None None) = Map.empty"
    by (rule ext) (simp add: args_closed_form truthy_def)
  show ?thesis
    using wherequery_closed_form [of semester queue projects patternmatch telescope] 1 2 3 4 5 6 7 8
    by blast
qed

text \<open>
  Claim C6 as stated fails: the call \<^verbatim>\<open>create_group_project_query(semester='20A')\<close>
  yields two fragments, and the call without arguments yields a fragment and a
  parameter, because \<^verbatim>\<open>telescope\<close> has the default \<^verbatim>\<open>'JCMT'\<close>.
\<close>

theorem semester_only_default_telescope_two_fragments:
  "length (wherequery (create_group_project_query (Some ''20A'') None None None telescope_default)) = 2
   \<and> wherequery (create_group_project_query None None None None telescope_default) \<noteq> []
   \<and> args (create_group_project_query None None None None telescope_default) \<noteq> Map.empty"
proof -
  have "args (create_group_project_query None None None None telescope_default) ''telescope''
          = Some (StrV ''JCMT'')"
    by (simp add: args_closed_form truthy_def telescope_default_def)
  then have "args (create_group_project_query None None None None telescope_default) \<noteq> Map.empty"
    by auto
  then show ?thesis
    by (simp add: wherequery_closed_form truthy_def projects_given_def telescope_default_def)
qed

text \<open>
  Claim C9. The call with \<^verbatim>\<open>projects = []\<close> returns what the call with
  \<^verbatim>\<open>projects = None\<close> returns, and whatever list of projects is passed, no fragment is
  the membership test with an empty literal list.
\<close>

theorem empty_projects_like_omitted:
  "create_group_project_query semester queue (Some []) patternmatch telescope
     = create_group_project_query semester queue None patternmatch telescope
   \<and> '' p.projectid in () ''
       \<notin> set (wherequery (create_group_project_query semester queue projects patternmatch telescope))"
proof -
  have same: "create_group_project_query semester queue (Some []) patternmatch telescope
     = create_group_project_query semester queue None patternmatch telescope"
    by (simp add: create_group_project_query_def projects_given_def)
  have "projects_given projects \<Longrightarrow> projects_fragment (the projects) \<noteq> '' p.projectid in () ''"
    by (cases projects) (simp_all add: projects_given_def projects_fragment_empty_iff)
  then have "'' p.projectid in () ''
       \<notin> set (wherequery (create_group_project_query semester queue projects patternmatch telescope))"
    by (auto simp add: wherequery_closed_form)
  with same show ?thesis by simp
qed

section \<open>Properties of the query templates\<close>







text \<open>The query and the parameters of a call with a start date and the defaults.\<close>

lemma find_obs_query_with_defaults:
  "find_obs_query (Some 20200101) None False False None min_age_hours_default =
    (''SELECT obsid FROM jcmt.COMMON AS c WHERE (utdate >= %(us)s)''
       @ '' AND (TIMESTAMPDIFF(HOUR, date_obs, UTC_TIMESTAMP()) >= %(ma)s)''
       @ '' AND ((last_caom_mod IS NULL) OR (last_modified > last_caom_mod)''
       @ '' OR (last_caom_mod < (SELECT CONVERT_TZ(MAX(commentdate), ''
       @ [CHR 0x22] @ ''+00:00'' @ [CHR 0x22] @ '', '' @ [CHR 0x22] @ ''SYSTEM'' @ [CHR 0x22]
       @ '') FROM omp.ompobslog AS o WHERE o.obsid=c.obsid)))''
       @ '' AND (SELECT COUNT(*) FROM jcmt.FILES AS f JOIN jcmt.transfer AS t''
       @ '' ON f.file_id=t.file_id WHERE f.obsid=c.obsid AND t.status NOT IN (''
       @ [CHR 0x22] @ ''t'' @ [CHR 0x22] @ '', '' @ [CHR 0x22] @ ''d'' @ [CHR 0x22] @ '', ''
       @ [CHR 0x22] @ ''D'' @ [CHR 0x22] @ '', '' @ [CHR 0x22] @ ''z'' @ [CHR 0x22]
       @ '')) = 0'',
     [''us'' \<mapsto> IntV 20200101, ''ma'' \<mapsto> IntV 4])"
  by (simp add: find_obs_query_def find_obs_where_def Let_def status_condition_of_def
      quote_double_def min_age_hours_default_def)





section \<open>Properties of the eligibility evaluator\<close>

lemma sql_max_Max: "sql_max xs = (if xs = [] then None else Some (Max (set xs)))"
proof (cases xs)
  case Nil
  then show ?thesis by simp
next
  case (Cons x ys)
  then show ?thesis using Max.set_eq_fold [of x ys] by simp
qed

lemma max_commentdate_Max:
  "max_commentdate db ob =
     (if comment_dates db ob = {} then None else Some (Max (comment_dates db ob)))"
  by (simp add: max_commentdate_def comment_dates_def sql_max_Max filter_empty_conv)

lemma fetch_loop_append: "fetch_loop cursor result = result @ cursor"
  by (induction cursor arbitrary: result) simp_all

lemma status_condition_in_where:
  "Status_condition (status_condition_of no_status_check)
     \<in> set (fst (find_obs_where us ue no_status_check ntc ii ma))"
  by (simp add: find_obs_where_def Let_def split: option.splits)

lemma holds_status_condition_iff:
  "(holds sv db ps c (Status_condition (status_condition_of no_status_check)) = Some True) =
     (last_caom_mod c = None \<or>
      (\<exists>m. last_caom_mod c = Some m \<and>
           (m < last_modified c \<or>
            (\<not> no_status_check \<and> comment_dates db (obsid c) \<noteq> {} \<and>
             m < CONVERT_TZ_SYSTEM sv (Max (comment_dates db (obsid c)))))))"
proof (cases "last_caom_mod c")
  case None
  then show ?thesis
    by (simp add: status_condition_of_def Let_def sql_or_def sql_lt_def)
next
  case (Some m)
  then show ?thesis
    by (simp add: status_condition_of_def Let_def sql_or_def sql_lt_def max_commentdate_Max)
qed

text \<open>
  Claim C1, as amended. For every row \<open>c\<close> of \<^verbatim>\<open>jcmt.COMMON\<close>, the status condition of
  the query is true exactly when \<^verbatim>\<open>last_caom_mod\<close> is null, or \<^verbatim>\<open>last_modified\<close> is
  strictly after \<^verbatim>\<open>last_caom_mod\<close>, or (unless \<^verbatim>\<open>no_status_check\<close> is set) the
  observation has log rows and the greatest \<^verbatim>\<open>commentdate\<close> among all of them, active or
  not, converted from UTC to the system time zone, is strictly after \<^verbatim>\<open>last_caom_mod\<close>.
  The function returns the \<^verbatim>\<open>obsid\<close> of exactly the rows the conjunction selects, and
  every selected row satisfies the status condition.
\<close>

theorem find_obs_status_condition:
  "(holds sv db ps c (Status_condition (status_condition_of no_status_check)) = Some True) =
     (last_caom_mod c = None \<or>
      (\<exists>m. last_caom_mod c = Some m \<and>
           (m < last_modified c \<or>
            (\<not> no_status_check \<and> comment_dates db (obsid c) \<noteq> {} \<and>
             m < CONVERT_TZ_SYSTEM sv (Max (comment_dates db (obsid c)))))))
   \<and> find_obs_for_ingestion sv db us ue no_status_check ntc ii ma =
       map obsid (filter (selected sv db (find_obs_where us ue no_status_check ntc ii ma))
                         (COMMON db))
   \<and> (selected sv db (find_obs_where us ue no_status_check ntc ii ma) c \<longrightarrow>
        holds sv db (snd (find_obs_where us ue no_status_check ntc ii ma)) c
          (Status_condition (status_condition_of no_status_check)) = Some True)"
proof -
  have res: "find_obs_for_ingestion sv db us ue no_status_check ntc ii ma =
       map obsid (filter (selected sv db (find_obs_where us ue no_status_check ntc ii ma))
                         (COMMON db))"
    by (simp add: find_obs_for_ingestion_def Let_def fetch_loop_append)
  have sel: "selected sv db (find_obs_where us ue no_status_check ntc ii ma) c \<longrightarrow>
        holds sv db (snd (find_obs_where us ue no_status_check ntc ii ma)) c
          (Status_condition (status_condition_of no_status_check)) = Some True"
    using status_condition_in_where [of no_status_check us ue ntc ii ma]
    unfolding selected_def list_all_iff by blast
  show ?thesis
    using holds_status_condition_iff [of sv db ps c no_status_check] res sel by blast
qed

lemma example_selected:
  "selected hawaii example_db
     (find_obs_where (Some 20200101) None False False None min_age_hours_default) example_obs"
  by (simp add: selected_def find_obs_where_def status_condition_of_def Let_def sql_or_def sql_lt_def
      max_commentdate_def example_db_def example_log_def example_obs_def hawaii_def
      min_age_hours_default_def int_param_def TIMESTAMPDIFF_def at_time_def files_in_transfer_def)

theorem find_obs_status_condition_witness:
  "selected hawaii example_db
     (find_obs_where (Some 20200101) None False False None min_age_hours_default) example_obs
   \<and> holds hawaii example_db
        (snd (find_obs_where (Some 20200101) None False False None min_age_hours_default))
        example_obs (Status_condition (status_condition_of False)) = Some True
   \<and> find_obs_for_ingestion hawaii example_db (Some 20200101) None False False None
        min_age_hours_default = [''scuba2_00012_20200101T033000'']"
proof -
  note inst = find_obs_status_condition
    [of hawaii example_db Map.empty example_obs False "Some 20200101" None False None
        min_age_hours_default]
  have r: "find_obs_for_ingestion hawaii example_db (Some 20200101) None False False None
             min_age_hours_default =
       map obsid (filter (selected hawaii example_db
                    (find_obs_where (Some 20200101) None False False None min_age_hours_default))
                  (COMMON example_db))"
    using inst by blast
  have "COMMON example_db = [example_obs]" by (simp add: example_db_def)
  with r example_selected
  have "find_obs_for_ingestion hawaii example_db (Some 20200101) None False False None
          min_age_hours_default = [''scuba2_00012_20200101T033000'']"
    by (simp add: example_obs_def)
  then show ?thesis
    using inst example_selected by blast
qed

text \<open>
  Claim C1 as stated fails. The observation of \<^term>\<open>example_db\<close> was ingested at 500000
  and last modified before; its most recent active comment (log row 1) dates from before
  the ingestion, and a later comment (log row 2) is no longer active. The condition of
  the claim is false, and the function, called with a start date and its defaults,
  returns the observation.
\<close>

theorem inactive_comment_reopens_eligibility:
  "find_obs_for_ingestion hawaii example_db (Some 20200101) None False False None
     min_age_hours_default = [''scuba2_00012_20200101T033000'']
   \<and> obsid example_obs = ''scuba2_00012_20200101T033000''
   \<and> \<not> claimed_status_condition hawaii example_db False example_obs"
proof -
  have a: "find_obs_for_ingestion hawaii example_db (Some 20200101) None False False None
     min_age_hours_default = [''scuba2_00012_20200101T033000'']"
    using example_selected
    by (simp add: find_obs_for_ingestion_def Let_def fetch_loop_append example_db_def)
       (simp add: example_obs_def)
  have m: "most_recent_active_comment example_db ''scuba2_00012_20200101T033000''
             = Some (hd example_log)"
    by (simp add: most_recent_active_comment_def example_db_def example_log_def)
  have b: "\<not> claimed_status_condition hawaii example_db False example_obs"
    by (simp add: claimed_status_condition_def example_obs_def m)
       (simp add: example_log_def hawaii_def)
  from a b show ?thesis by (simp add: example_obs_def)
qed

section \<open>Properties of the status mutator\<close>

lemma pinned_update:
  "UPDATE_COMMON sv (set_last_caom_mod_assignments set_null) cond rows =
     map (\<lambda>r. if cond r
               then r \<lparr> last_caom_mod := (if set_null then None else Some (NOW sv)) \<rparr>
               else r) rows"
  by (simp add: UPDATE_COMMON_def set_last_caom_mod_assignments_def Let_def)

lemma unpinned_update_bumps_last_modified:
  "last_caom_mod r \<noteq> Some (NOW sv) \<Longrightarrow>
   UPDATE_COMMON sv [Last_caom_mod_NOW] (\<lambda>r. True) [r] =
     [r \<lparr> last_caom_mod := Some (NOW sv), last_modified := NOW sv \<rparr>]"
proof -
  assume a: "last_caom_mod r \<noteq> Some (NOW sv)"
  have "r \<lparr> last_caom_mod := Some (NOW sv) \<rparr> \<noteq> r"
  proof
    assume "r \<lparr> last_caom_mod := Some (NOW sv) \<rparr> = r"
    then have "last_caom_mod (r \<lparr> last_caom_mod := Some (NOW sv) \<rparr>) = last_caom_mod r" by simp
    with a show False by simp
  qed
  then show ?thesis by (simp add: UPDATE_COMMON_def Let_def)
qed

lemma set_column_keeps_last_modified:
  "map last_modified (map (\<lambda>r. if obsid r = ob then r \<lparr> last_caom_mod := v \<rparr> else r) rows)
     = map last_modified rows"
  by (induction rows) auto

lemma set_column_keeps_other_columns:
  "map (\<lambda>r. r \<lparr> last_caom_mod := None \<rparr>)
       (map (\<lambda>r. if obsid r = ob then r \<lparr> last_caom_mod := v \<rparr> else r) rows)
     = map (\<lambda>r. r \<lparr> last_caom_mod := None \<rparr>) rows"
  by (induction rows) auto

lemma set_column_keeps_other_rows:
  "filter (\<lambda>r. obsid r \<noteq> ob)
       (map (\<lambda>r. if obsid r = ob then r \<lparr> last_caom_mod := v \<rparr> else r) rows)
     = filter (\<lambda>r. obsid r \<noteq> ob) rows"
  by (induction rows) auto

text \<open>
  Claim C2. The call issues one \<^verbatim>\<open>UPDATE\<close> whose assignments are \<^verbatim>\<open>last_caom_mod\<close>
  (to \<^verbatim>\<open>NOW()\<close>, or to \<^verbatim>\<open>NULL\<close> when \<^verbatim>\<open>set_null\<close> is true) and \<^verbatim>\<open>last_modified\<close> to
  its own value. Afterwards every row with the given \<^verbatim>\<open>obsid\<close> is the row it was with
  \<^verbatim>\<open>last_caom_mod\<close> replaced, and every other row is the row it was: the column
  \<^verbatim>\<open>last_modified\<close> is the same in every row, all columns other than \<^verbatim>\<open>last_caom_mod\<close>
  are the same in every row, and the other tables are the same. (Lemma
  \<open>unpinned_update_bumps_last_modified\<close> shows what the server does to a row when
  \<^verbatim>\<open>last_modified\<close> is not assigned.)
\<close>

theorem set_last_caom_mod_changes_only_last_caom_mod:
  "COMMON (set_last_caom_mod sv db ob set_null) =
     map (\<lambda>r. if obsid r = ob
               then r \<lparr> last_caom_mod := (if set_null then None else Some (NOW sv)) \<rparr>
               else r) (COMMON db)
   \<and> map last_modified (COMMON (set_last_caom_mod sv db ob set_null))
       = map last_modified (COMMON db)
   \<and> map (\<lambda>r. r \<lparr> last_caom_mod := None \<rparr>) (COMMON (set_last_caom_mod sv db ob set_null))
       = map (\<lambda>r. r \<lparr> last_caom_mod := None \<rparr>) (COMMON db)
   \<and> filter (\<lambda>r. obsid r \<noteq> ob) (COMMON (set_last_caom_mod sv db ob set_null))
       = filter (\<lambda>r. obsid r \<noteq> ob) (COMMON db)
   \<and> ompobslog (set_last_caom_mod sv db ob set_null) = ompobslog db
   \<and> FILES (set_last_caom_mod sv db ob set_null) = FILES db
   \<and> transfer (set_last_caom_mod sv db ob set_null) = transfer db
   \<and> fst (set_last_caom_mod_query ob set_null) =
       ''UPDATE jcmt.COMMON SET '' @
       py_join '', '' (map render_assignment (set_last_caom_mod_assignments set_null)) @
       '' WHERE obsid=%(o)s''"
proof -
  have c: "COMMON (set_last_caom_mod sv db ob set_null) =
     map (\<lambda>r. if obsid r = ob
               then r \<lparr> last_caom_mod := (if set_null then None else Some (NOW sv)) \<rparr>
               else r) (COMMON db)"
    by (simp add: set_last_caom_mod_def pinned_update)
  have m: "map last_modified (COMMON (set_last_caom_mod sv db ob set_null))
       = map last_modified (COMMON db)"
    unfolding c by (rule set_column_keeps_last_modified)
  have o: "map (\<lambda>r. r \<lparr> last_caom_mod := None \<rparr>) (COMMON (set_last_caom_mod sv db ob set_null))
       = map (\<lambda>r. r \<lparr> last_caom_mod := None \<rparr>) (COMMON db)"
    unfolding c by (rule set_column_keeps_other_columns)
  have f: "filter (\<lambda>r. obsid r \<noteq> ob) (COMMON (set_last_caom_mod sv db ob set_null))
       = filter (\<lambda>r. obsid r \<noteq> ob) (COMMON db)"
    unfolding c by (rule set_column_keeps_other_rows)
  have q: "fst (set_last_caom_mod_query ob set_null) =
       ''UPDATE jcmt.COMMON SET '' @
       py_join '', '' (map render_assignment (set_last_caom_mod_assignments set_null)) @
       '' WHERE obsid=%(o)s''"
    by (simp add: set_last_caom_mod_query_def set_last_caom_mod_assignments_def)
  have r: "ompobslog (set_last_caom_mod sv db ob set_null) = ompobslog db
   \<and> FILES (set_last_caom_mod sv db ob set_null) = FILES db
   \<and> transfer (set_last_caom_mod sv db ob set_null) = transfer db"
    by (simp add: set_last_caom_mod_def)
  from c m o f q r show ?thesis by blast
qed

section \<open>Properties of the point lookups\<close>

text \<open>
  Claim C10. When no row of \<^verbatim>\<open>omp.ompobslog\<close> for the given \<^verbatim>\<open>obsid\<close> has
  \<^verbatim>\<open>obsactive = 1\<close>, \<^verbatim>\<open>get_obsid_status\<close> returns \<^verbatim>\<open>None\<close> and raises nothing, with
  either value of the flag \<^verbatim>\<open>comment\<close>.
\<close>

theorem get_obsid_status_none_without_active_rows:
  assumes "\<forall>l \<in> set (ompobslog db). \<not> (o_obsid l = ob \<and> obsactive l = 1)"
  shows "get_obsid_status db ob comment = Inr None"
proof -
  have "filter (\<lambda>l. o_obsid l = ob \<and> obsactive l = 1) (ompobslog db) = []"
    using assms by (simp add: filter_empty_conv)
  then have "max_active_obslogid db ob = None"
    by (simp add: max_active_obslogid_def)
  then have unknown: "sql_eq (Some (obslogid l)) (max_active_obslogid db ob) = None" for l
    by (simp add: sql_eq_def)
  have "get_obsid_status_rows db ob = []"
    by (simp add: get_obsid_status_rows_def unknown)
  then show ?thesis
    by (simp add: get_obsid_status_def)
qed

theorem get_obsid_status_none_without_active_rows_witness:
  "get_obsid_status (example_db \<lparr> ompobslog := tl example_log \<rparr>)
     ''scuba2_00012_20200101T033000'' True = Inr None"
proof -
  have "\<forall>l \<in> set (ompobslog (example_db \<lparr> ompobslog := tl example_log \<rparr>)).
          \<not> (o_obsid l = ''scuba2_00012_20200101T033000'' \<and> obsactive l = 1)"
    by (simp add: example_log_def)
  then show ?thesis
    by (rule get_obsid_status_none_without_active_rows)
qed







section \<open>Properties of the rename transaction\<close>

lemma count_projectid_executed [simp]:
  "count_projectid (st \<lparr> executed := e \<rparr>) table n = count_projectid st table n"
  by (simp add: count_projectid_def)











section \<open>Properties of the aggregate reports\<close>

lemma at_time_split: "at_time days h m s = (days * 24 + h) * 3600 + (m * 60 + s)"
  by (simp add: at_time_def algebra_simps)

lemma at_time_split_minutes: "at_time days h m s = ((days * 24 + h) * 60 + m) * 60 + s"
  by (simp add: at_time_def algebra_simps)

lemma HOUR_at_time:
  assumes "0 \<le> h" "h < 24" "0 \<le> m" "m < 60" "0 \<le> s" "s < 60"
  shows "HOUR (at_time days h m s) = h"
proof -
  have "0 \<le> m * 60 + s" "m * 60 + s < 3600" using assms by auto
  then have "(m * 60 + s) div 3600 = 0" by simp
  then have "at_time days h m s div 3600 = days * 24 + h"
    by (simp add: at_time_split)
  then show ?thesis using assms by (simp add: HOUR_def)
qed

lemma MINUTE_at_time:
  assumes "0 \<le> h" "h < 24" "0 \<le> m" "m < 60" "0 \<le> s" "s < 60"
  shows "MINUTE (at_time days h m s) = m"
proof -
  have "s div 60 = 0" using assms by simp
  then have "at_time days h m s div 60 = (days * 24 + h) * 60 + m"
    by (simp add: at_time_split_minutes)
  then have "MINUTE (at_time days h m s) = ((days * 24 + h) * 60 + m) mod 60"
    by (simp only: MINUTE_def)
  also have "\<dots> = m mod 60" by (rule mod_mult_self3)
  also have "\<dots> = m" using assms by simp
  finally show ?thesis .
qed

lemma decimal_hour_at_time:
  assumes "0 \<le> h" "h < 24" "0 \<le> m" "m < 60" "0 \<le> s" "s < 60"
  shows "decimal_hour (at_time days h m s) = real_of_int h + real_of_int m / 60"
  using assms by (simp add: decimal_hour_def HOUR_at_time MINUTE_at_time)

lemma decimal_hour_window:
  "(3.5 \<le> decimal_hour d \<and> decimal_hour d \<le> 19.5) =
   (210 \<le> HOUR d * 60 + MINUTE d \<and> HOUR d * 60 + MINUTE d \<le> 1170)"
proof -
  have eq: "decimal_hour d = real_of_int (HOUR d * 60 + MINUTE d) / 60"
    by (simp add: decimal_hour_def field_simps)
  have lo: "(3.5 \<le> real_of_int k / 60) = (210 \<le> k)" for k
    by (auto simp add: field_simps)
  have hi: "(real_of_int k / 60 \<le> 19.5) = (k \<le> 1170)" for k
    by (auto simp add: field_simps)
  show ?thesis unfolding eq lo hi by (rule refl)
qed

text \<open>The server's rounding of the quotient does not change the day/night test.\<close>

lemma round_lo: "round (real_of_int 29 * 10000 / 60) = 4833" by (simp add: round_def)
lemma round_mid: "round (real_of_int 30 * 10000 / 60) = 5000" by (simp add: round_def)
lemma round_hi: "round (real_of_int 31 * 10000 / 60) = 5167" by (simp add: round_def)
lemma round_top: "round (real_of_int 59 * 10000 / 60) = 9833" by (simp add: round_def)

lemma rounded_minutes:
  fixes m :: int
  assumes "0 \<le> m" "m < 60"
  shows "0 \<le> round (real_of_int m * 10000 / 60)"
    and "round (real_of_int m * 10000 / 60) \<le> 9833"
    and "(5000 \<le> round (real_of_int m * 10000 / 60)) = (30 \<le> m)"
    and "(round (real_of_int m * 10000 / 60) \<le> 5000) = (m \<le> 30)"
proof -
  let ?r = "\<lambda>k::int. round (real_of_int k * 10000 / 60)"
  have mono: "?r a \<le> ?r b" if "a \<le> b" for a b :: int
    using that by (intro round_mono) (simp add: divide_right_mono)
  show "0 \<le> ?r m" using mono [of 0 m] assms by simp
  show "?r m \<le> 9833" using mono [of m 59] assms round_top by simp
  show "(5000 \<le> ?r m) = (30 \<le> m)"
  proof
    assume "5000 \<le> ?r m"
    show "30 \<le> m"
    proof (rule ccontr)
      assume "\<not> 30 \<le> m"
      then have "m \<le> 29" by simp
      then have "?r m \<le> 4833" using mono [of m 29] round_lo by simp
      with \<open>5000 \<le> ?r m\<close> show False by simp
    qed
  next
    assume "30 \<le> m"
    then show "5000 \<le> ?r m" using mono [of 30 m] round_mid by simp
  qed
  show "(?r m \<le> 5000) = (m \<le> 30)"
  proof
    assume "?r m \<le> 5000"
    show "m \<le> 30"
    proof (rule ccontr)
      assume "\<not> m \<le> 30"
      then have "31 \<le> m" by simp
      then have "5167 \<le> ?r m" using mono [of 31 m] round_hi by simp
      with \<open>?r m \<le> 5000\<close> show False by simp
    qed
  next
    assume "m \<le> 30"
    then show "?r m \<le> 5000" using mono [of m 30] round_mid by simp
  qed
qed

lemma MINUTE_range: "0 \<le> MINUTE d \<and> MINUTE d < 60"
  by (simp add: MINUTE_def)

lemma decimal_hour_rounding_harmless:
  "(3.5 \<le> decimal_hour_rounded d \<and> decimal_hour_rounded d \<le> 19.5) =
   (3.5 \<le> decimal_hour d \<and> decimal_hour d \<le> 19.5)"
proof -
  define h where "h = HOUR d"
  define m where "m = MINUTE d"
  define r where "r = round (real_of_int m * 10000 / 60)"
  have mr: "0 \<le> m" "m < 60" using MINUTE_range [of d] by (simp_all add: m_def)
  have r0: "0 \<le> r" and r1: "r \<le> 9833" and rlo: "(5000 \<le> r) = (30 \<le> m)"
    and rhi: "(r \<le> 5000) = (m \<le> 30)"
    using rounded_minutes [OF mr] by (simp_all add: r_def)
  have L1: "(3.5 \<le> real_of_int h + real_of_int r / 10000) = (35000 \<le> h * 10000 + r)"
  proof -
    have "(3.5 \<le> real_of_int h + real_of_int r / 10000)
            = (real_of_int 35000 \<le> real_of_int (h * 10000 + r))"
      by (auto simp add: field_simps)
    then show ?thesis by (simp only: of_int_le_iff)
  qed
  have L2: "(real_of_int h + real_of_int r / 10000 \<le> 19.5) = (h * 10000 + r \<le> 195000)"
  proof -
    have "(real_of_int h + real_of_int r / 10000 \<le> 19.5)
            = (real_of_int (h * 10000 + r) \<le> real_of_int 195000)"
      by (auto simp add: field_simps)
    then show ?thesis by (simp only: of_int_le_iff)
  qed
  have E1: "(3.5 \<le> real_of_int h + real_of_int m / 60) = (210 \<le> h * 60 + m)"
  proof -
    have "(3.5 \<le> real_of_int h + real_of_int m / 60)
            = (real_of_int 210 \<le> real_of_int (h * 60 + m))"
      by (auto simp add: field_simps)
    then show ?thesis by (simp only: of_int_le_iff)
  qed
  have E2: "(real_of_int h + real_of_int m / 60 \<le> 19.5) = (h * 60 + m \<le> 1170)"
  proof -
    have "(real_of_int h + real_of_int m / 60 \<le> 19.5)
            = (real_of_int (h * 60 + m) \<le> real_of_int 1170)"
      by (auto simp add: field_simps)
    then show ?thesis by (simp only: of_int_le_iff)
  qed
  have A: "(35000 \<le> h * 10000 + r) = (210 \<le> h * 60 + m)"
  proof -
    consider "h \<le> 2" | "h = 3" | "4 \<le> h" by linarith
    then show ?thesis
    proof cases
      case 1
      then have "\<not> 35000 \<le> h * 10000 + r" "\<not> 210 \<le> h * 60 + m" using mr r1 by linarith+
      then show ?thesis by simp
    next
      case 2
      then show ?thesis using rlo by simp
    next
      case 3
      then have "35000 \<le> h * 10000 + r" "210 \<le> h * 60 + m" using mr r0 by linarith+
      then show ?thesis by simp
    qed
  qed
  have B: "(h * 10000 + r \<le> 195000) = (h * 60 + m \<le> 1170)"
  proof -
    consider "h \<le> 18" | "h = 19" | "20 \<le> h" by linarith
    then show ?thesis
    proof cases
      case 1
      then have "h * 10000 + r \<le> 195000" "h * 60 + m \<le> 1170" using mr r1 by linarith+
      then show ?thesis by simp
    next
      case 2
      then show ?thesis using rhi by simp
    next
      case 3
      then have "\<not> h * 10000 + r \<le> 195000" "\<not> h * 60 + m \<le> 1170" using mr r0 by linarith+
      then show ?thesis by simp
    qed
  qed
  show ?thesis
    unfolding decimal_hour_rounded_def decimal_hour_def h_def [symmetric] m_def [symmetric]
      r_def [symmetric] L1 L2 E1 E2 A B by (rule refl)
qed

lemma daynight_inner:
  "daynight (get_summary_obs_info_inner csotau c ol) =
     (if 3.5 \<le> decimal_hour (date_obs c) \<and> decimal_hour (date_obs c) \<le> 19.5
      then ''night'' else ''day'')"
  by (simp add: get_summary_obs_info_inner_def select_inner_csotau_def select_inner_wvmtau_def
      is_true_def sql_between_def)

lemma daynight_group_inner:
  "daynight (get_summary_obs_info_group_inner csotau c ol) =
     (if 3.5 \<le> decimal_hour (date_obs c) \<and> decimal_hour (date_obs c) \<le> 19.5
      then ''night'' else ''day'')"
  by (simp add: get_summary_obs_info_group_inner_def select_inner_group_csotau_def
      select_inner_group_wvmtau_def is_true_def sql_between_def)

text \<open>
  Claim C4, as amended. In both functions and with either value of \<^verbatim>\<open>csotau\<close>, the
  label of an observation is \<^verbatim>\<open>night\<close> iff \<^verbatim>\<open>HOUR(date_obs) + MINUTE(date_obs)/60\<close> lies
  in the closed interval from 3.5 to 19.5, that is, iff the hour and minute of
  \<^verbatim>\<open>date_obs\<close> are from 03:30 to 19:30, both included (minute 210 to minute 1170 of the
  day), and \<^verbatim>\<open>day\<close> otherwise. At 03:30:00 the label is \<^verbatim>\<open>night\<close>, at 03:29:59 it is
  \<^verbatim>\<open>day\<close>, at 19:30:00 and until 19:30:59 it is \<^verbatim>\<open>night\<close>, and at 19:31:00 it is
  \<^verbatim>\<open>day\<close>.
\<close>

theorem daynight_night_from_0330_to_1930_inclusive:
  "daynight (get_summary_obs_info_inner csotau c ol) =
     (if 3.5 \<le> decimal_hour (date_obs c) \<and> decimal_hour (date_obs c) \<le> 19.5
      then ''night'' else ''day'')
   \<and> daynight (get_summary_obs_info_group_inner csotau c ol) =
     (if 3.5 \<le> decimal_hour (date_obs c) \<and> decimal_hour (date_obs c) \<le> 19.5
      then ''night'' else ''day'')
   \<and> ((3.5 \<le> decimal_hour d \<and> decimal_hour d \<le> 19.5) =
       (210 \<le> HOUR d * 60 + MINUTE d \<and> HOUR d * 60 + MINUTE d \<le> 1170))
   \<and> daynight (get_summary_obs_info_inner csotau (c \<lparr> date_obs := at_time days 3 30 0 \<rparr>) ol) = ''night''
   \<and> daynight (get_summary_obs_info_group_inner csotau (c \<lparr> date_obs := at_time days 3 30 0 \<rparr>) ol) = ''night''
   \<and> daynight (get_summary_obs_info_inner csotau (c \<lparr> date_obs := at_time days 3 29 59 \<rparr>) ol) = ''day''
   \<and> daynight (get_summary_obs_info_group_inner csotau (c \<lparr> date_obs := at_time days 3 29 59 \<rparr>) ol) = ''day''
   \<and> daynight (get_summary_obs_info_inner csotau (c \<lparr> date_obs := at_time days 19 30 0 \<rparr>) ol) = ''night''
   \<and> daynight (get_summary_obs_info_group_inner csotau (c \<lparr> date_obs := at_time days 19 30 0 \<rparr>) ol) = ''night''
   \<and> daynight (get_summary_obs_info_inner csotau (c \<lparr> date_obs := at_time days 19 30 59 \<rparr>) ol) = ''night''
   \<and> daynight (get_summary_obs_info_group_inner csotau (c \<lparr> date_obs := at_time days 19 30 59 \<rparr>) ol) = ''night''
   \<and> daynight (get_summary_obs_info_inner csotau (c \<lparr> date_obs := at_time days 19 31 0 \<rparr>) ol) = ''day''
   \<and> daynight (get_summary_obs_info_group_inner csotau (c \<lparr> date_obs := at_time days 19 31 0 \<rparr>) ol) = ''day''"
proof -
  have a: "decimal_hour (at_time days 3 30 0) = 3.5" by (simp add: decimal_hour_at_time)
  have b: "decimal_hour (at_time days 3 29 59) = 3 + 29 / 60" by (simp add: decimal_hour_at_time)
  have e: "decimal_hour (at_time days 19 30 0) = 19.5" by (simp add: decimal_hour_at_time)
  have f: "decimal_hour (at_time days 19 30 59) = 19.5" by (simp add: decimal_hour_at_time)
  have g: "decimal_hour (at_time days 19 31 0) = 19 + 31 / 60" by (simp add: decimal_hour_at_time)
  show ?thesis
    using decimal_hour_window [of d]
    by (simp add: daynight_inner daynight_group_inner a b e f g)
qed

text \<open>
  Claim C4 as stated fails: an observation that starts at exactly 19:30:00 is labelled
  \<^verbatim>\<open>night\<close> by all four select lists, since \<^verbatim>\<open>between\<close> includes its upper end.
\<close>

theorem daynight_1930_is_night:
  "daynight (get_summary_obs_info_inner False (example_obs \<lparr> date_obs := at_time 0 19 30 0 \<rparr>) None)
     = ''night''
   \<and> daynight (get_summary_obs_info_inner True (example_obs \<lparr> date_obs := at_time 0 19 30 0 \<rparr>) None)
     = ''night''
   \<and> daynight (get_summary_obs_info_group_inner False (example_obs \<lparr> date_obs := at_time 0 19 30 0 \<rparr>) None)
     = ''night''
   \<and> daynight (get_summary_obs_info_group_inner True (example_obs \<lparr> date_obs := at_time 0 19 30 0 \<rparr>) None)
     = ''night''"
proof -
  have "decimal_hour (at_time 0 19 30 0) = 19.5"
    by (simp add: decimal_hour_def HOUR_def MINUTE_def at_time_def)
  then show ?thesis
    by (simp add: daynight_inner daynight_group_inner)
qed












end
